theory Spec2Isabelle
  imports Main
begin

section \<open>The message-queue comment service of kiosk\<close>

text \<open>
  The development follows \<^verbatim>\<open>services/comment_service.go\<close>. The service is a thin
  dispatcher: every handler decodes the payload of a broker message, validates it, calls the
  comment repository under a deadline and answers through \<^verbatim>\<open>msg.Respond\<close>.

  The packages the handlers call (\<^verbatim>\<open>data\<close>, \<^verbatim>\<open>errors\<close>, \<^verbatim>\<open>models\<close>,
  \<^verbatim>\<open>encoding/json\<close> and the broker client) are taken as parameters: a record of
  functions, one field for each call the handlers make. Everything the handlers do to the
  outside is written into an explicit world state. The calls to the logger have no effect
  on that state and are left out.
\<close>

subsection \<open>Data\<close>

type_synonym bytes = string

text \<open>Instants and durations are counted in nanoseconds, as \<^verbatim>\<open>time.Duration\<close> does.\<close>

type_synonym time = int
type_synonym Duration = int

definition Second :: Duration where
  "Second = 1000000000"

text \<open>The broker message \<^verbatim>\<open>nc.Msg\<close>: its subject, its reply subject and its payload.\<close>

record Msg =
  Subject :: string
  Reply :: string
  Data :: bytes

text \<open>
  A \<^verbatim>\<open>context.Context\<close> made by \<^verbatim>\<open>context.WithTimeout\<close>: its identity (contexts
  are reference values, numbered in the order of their creation) and its deadline.
\<close>

record Context =
  ctx_id :: nat
  deadline :: time

text \<open>
  The value handed to \<^verbatim>\<open>reply\<close> is an \<^verbatim>\<open>interface{}\<close>: in this file either a
  structured error of the \<^verbatim>\<open>errors\<close> package or a \<^verbatim>\<open>*data.CommentResponse\<close>.
\<close>

datatype ('e, 'r) reply_value = ErrorValue 'e | ResponseValue 'r

text \<open>The four calls the handlers make on \<^verbatim>\<open>models.CommentRepository\<close>.\<close>

datatype 'c repo_call =
    InsertCall Context 'c
  | LoadByIDCall Context int
  | UpdateCall Context 'c
  | DeleteByIDCall Context int

fun call_ctx :: "'c repo_call \<Rightarrow> Context" where
  "call_ctx (InsertCall ctx c) = ctx"
| "call_ctx (LoadByIDCall ctx i) = ctx"
| "call_ctx (UpdateCall ctx c) = ctx"
| "call_ctx (DeleteByIDCall ctx i) = ctx"

text \<open>
  The collaborators. Type \<open>'e\<close> is the structured error, \<open>'q\<close> is
  \<^verbatim>\<open>data.CreateCommentRequest\<close>, \<open>'u\<close> is \<^verbatim>\<open>data.UpdateCommentRequest\<close>,
  \<open>'c\<close> is \<^verbatim>\<open>models.Comment\<close>, \<open>'r\<close> is \<^verbatim>\<open>data.CommentResponse\<close> and
  \<open>'db\<close> is the state of the storage behind the repository.

  \<^item> \<^verbatim>\<open>json.Unmarshal\<close> into each request type: \<open>None\<close> is a decoding error;
  \<^item> \<^verbatim>\<open>Validate\<close> of both request types: \<open>None\<close> is \<^verbatim>\<open>nil\<close>;
  \<^item> the repository operations: they read the context, read and change the storage, and
    return an error (\<open>None\<close> is \<^verbatim>\<open>nil\<close>);
  \<^item> \<^verbatim>\<open>json.Marshal\<close>: \<open>None\<close> is an encoding error;
  \<^item> \<^verbatim>\<open>msg.Respond\<close>: \<open>True\<close> when the broker client accepts the publication, that
    is when it returns \<^verbatim>\<open>nil\<close>.

  Each of them is taken to return: none panics and none blocks for ever.
\<close>

record ('e, 'q, 'u, 'c, 'r, 'db) collaborators =
  Unmarshal_create :: "bytes \<Rightarrow> 'q option"
  Unmarshal_update :: "bytes \<Rightarrow> 'u option"
  Unmarshal_id :: "bytes \<Rightarrow> int option"
  Validate_create :: "'q \<Rightarrow> 'e option"
  Validate_update :: "'u \<Rightarrow> 'e option"
  AsComment_create :: "'q \<Rightarrow> 'c"
  AsComment_update :: "'u \<Rightarrow> 'c"
  LoadFromComment :: "'c \<Rightarrow> 'r"
  InvalidRequestBody :: "'e"
  Insert :: "Context \<Rightarrow> 'c \<Rightarrow> 'db \<Rightarrow> 'e option \<times> 'db"
  LoadByID :: "Context \<Rightarrow> int \<Rightarrow> 'db \<Rightarrow> ('e + 'c) \<times> 'db"
  Update :: "Context \<Rightarrow> 'c \<Rightarrow> 'db \<Rightarrow> 'e option \<times> 'db"
  DeleteByID :: "Context \<Rightarrow> int \<Rightarrow> 'db \<Rightarrow> 'e option \<times> 'db"
  Marshal :: "('e, 'r) reply_value \<Rightarrow> bytes option"
  Respond :: "Msg \<Rightarrow> bytes \<Rightarrow> bool"

text \<open>
  The world a handler acts on: the storage, the contexts created and cancelled so far, the
  calls received by the repository, the payloads handed to \<^verbatim>\<open>msg.Respond\<close> (each with
  its message) and the replies the broker client accepted for publication.
\<close>

record ('c, 'db) world =
  db :: 'db
  next_ctx :: nat
  cancelled :: "nat list"
  repo_log :: "'c repo_call list"
  respond_log :: "(Msg \<times> bytes) list"
  published :: "(Msg \<times> bytes) list"

subsection \<open>Contexts\<close>

text \<open>
  \<^verbatim>\<open>context.WithTimeout(context.Background(), d)\<close> read at instant \<open>now\<close>: a new
  context whose deadline is \<open>now + d\<close>. \<^verbatim>\<open>cancel\<close> releases it.
\<close>

definition WithTimeout ::
  "time \<Rightarrow> Duration \<Rightarrow> ('c, 'db) world \<Rightarrow> Context \<times> ('c, 'db) world" where
  "WithTimeout now d w =
     (\<lparr>ctx_id = next_ctx w, deadline = now + d\<rparr>, w\<lparr>next_ctx := Suc (next_ctx w)\<rparr>)"

definition cancel :: "Context \<Rightarrow> ('c, 'db) world \<Rightarrow> ('c, 'db) world" where
  "cancel ctx w = w\<lparr>cancelled := cancelled w @ [ctx_id ctx]\<rparr>"

subsection \<open>Repository calls\<close>

definition repo_Insert ::
  "('e, 'q, 'u, 'c, 'r, 'db) collaborators \<Rightarrow> Context \<Rightarrow> 'c \<Rightarrow> ('c, 'db) world
     \<Rightarrow> 'e option \<times> ('c, 'db) world" where
  "repo_Insert env ctx c w =
     (case Insert env ctx c (db w) of
        (e, db') \<Rightarrow> (e, w\<lparr>db := db', repo_log := repo_log w @ [InsertCall ctx c]\<rparr>))"

definition repo_LoadByID ::
  "('e, 'q, 'u, 'c, 'r, 'db) collaborators \<Rightarrow> Context \<Rightarrow> int \<Rightarrow> ('c, 'db) world
     \<Rightarrow> ('e + 'c) \<times> ('c, 'db) world" where
  "repo_LoadByID env ctx i w =
     (case LoadByID env ctx i (db w) of
        (r, db') \<Rightarrow> (r, w\<lparr>db := db', repo_log := repo_log w @ [LoadByIDCall ctx i]\<rparr>))"

definition repo_Update ::
  "('e, 'q, 'u, 'c, 'r, 'db) collaborators \<Rightarrow> Context \<Rightarrow> 'c \<Rightarrow> ('c, 'db) world
     \<Rightarrow> 'e option \<times> ('c, 'db) world" where
  "repo_Update env ctx c w =
     (case Update env ctx c (db w) of
        (e, db') \<Rightarrow> (e, w\<lparr>db := db', repo_log := repo_log w @ [UpdateCall ctx c]\<rparr>))"

definition repo_DeleteByID ::
  "('e, 'q, 'u, 'c, 'r, 'db) collaborators \<Rightarrow> Context \<Rightarrow> int \<Rightarrow> ('c, 'db) world
     \<Rightarrow> 'e option \<times> ('c, 'db) world" where
  "repo_DeleteByID env ctx i w =
     (case DeleteByID env ctx i (db w) of
        (e, db') \<Rightarrow> (e, w\<lparr>db := db', repo_log := repo_log w @ [DeleteByIDCall ctx i]\<rparr>))"

subsection \<open>Replying\<close>

text \<open>
  \<^verbatim>\<open>_ = msg.Respond(b)\<close>: the payload is handed to the broker client; it is published
  when the client accepts it; the error is dropped.
\<close>

definition Msg_Respond ::
  "('e, 'q, 'u, 'c, 'r, 'db) collaborators \<Rightarrow> Msg \<Rightarrow> bytes \<Rightarrow> ('c, 'db) world
     \<Rightarrow> ('c, 'db) world" where
  "Msg_Respond env msg b w =
     w\<lparr>respond_log := respond_log w @ [(msg, b)],
       published := (if Respond env msg b then published w @ [(msg, b)] else published w)\<rparr>"

text \<open>
  \<^verbatim>\<open>reply, _ := json.Marshal(t)\<close>: on an encoding error the byte slice is \<^verbatim>\<open>nil\<close>,
  which is sent as a body of length zero.
\<close>

definition encoded ::
  "('e, 'q, 'u, 'c, 'r, 'db) collaborators \<Rightarrow> ('e, 'r) reply_value \<Rightarrow> bytes" where
  "encoded env t = (case Marshal env t of None \<Rightarrow> [] | Some b \<Rightarrow> b)"

definition reply ::
  "('e, 'q, 'u, 'c, 'r, 'db) collaborators \<Rightarrow> Msg \<Rightarrow> ('e, 'r) reply_value
     \<Rightarrow> ('c, 'db) world \<Rightarrow> ('c, 'db) world" where
  "reply env msg t w = Msg_Respond env msg (encoded env t) w"

definition replyNoContent ::
  "('e, 'q, 'u, 'c, 'r, 'db) collaborators \<Rightarrow> Msg \<Rightarrow> ('c, 'db) world \<Rightarrow> ('c, 'db) world" where
  "replyNoContent env msg w = Msg_Respond env msg [] w"

subsection \<open>The four handlers\<close>

text \<open>
  Each handler is run at the instant \<open>now\<close>. Its first statement creates the context, and
  the deferred \<^verbatim>\<open>cancel()\<close> runs when it returns, on every path.
\<close>

definition create ::
  "('e, 'q, 'u, 'c, 'r, 'db) collaborators \<Rightarrow> time \<Rightarrow> Msg \<Rightarrow> ('c, 'db) world
     \<Rightarrow> ('c, 'db) world" where
  "create env now msg w =
     (case WithTimeout now (5 * Second) w of
        (ctx, w1) \<Rightarrow>
          cancel ctx
            (case Unmarshal_create env (Data msg) of
               None \<Rightarrow> reply env msg (ErrorValue (InvalidRequestBody env)) w1
             | Some createCommentRequest \<Rightarrow>
                 (case Validate_create env createCommentRequest of
                    Some e \<Rightarrow> reply env msg (ErrorValue e) w1
                  | None \<Rightarrow>
                      (case repo_Insert env ctx (AsComment_create env createCommentRequest) w1 of
                         (Some e, w2) \<Rightarrow> reply env msg (ErrorValue e) w2
                       | (None, w2) \<Rightarrow> replyNoContent env msg w2))))"

definition load ::
  "('e, 'q, 'u, 'c, 'r, 'db) collaborators \<Rightarrow> time \<Rightarrow> Msg \<Rightarrow> ('c, 'db) world
     \<Rightarrow> ('c, 'db) world" where
  "load env now msg w =
     (case WithTimeout now (5 * Second) w of
        (ctx, w1) \<Rightarrow>
          cancel ctx
            (case Unmarshal_id env (Data msg) of
               None \<Rightarrow> reply env msg (ErrorValue (InvalidRequestBody env)) w1
             | Some i \<Rightarrow>
                 (case repo_LoadByID env ctx i w1 of
                    (Inl e, w2) \<Rightarrow> reply env msg (ErrorValue e) w2
                  | (Inr c, w2) \<Rightarrow>
                      reply env msg (ResponseValue (LoadFromComment env c)) w2)))"

definition update ::
  "('e, 'q, 'u, 'c, 'r, 'db) collaborators \<Rightarrow> time \<Rightarrow> Msg \<Rightarrow> ('c, 'db) world
     \<Rightarrow> ('c, 'db) world" where
  "update env now msg w =
     (case WithTimeout now (5 * Second) w of
        (ctx, w1) \<Rightarrow>
          cancel ctx
            (case Unmarshal_update env (Data msg) of
               None \<Rightarrow> reply env msg (ErrorValue (InvalidRequestBody env)) w1
             | Some updateCommentRequest \<Rightarrow>
                 (case Validate_update env updateCommentRequest of
                    Some e \<Rightarrow> reply env msg (ErrorValue e) w1
                  | None \<Rightarrow>
                      (case repo_Update env ctx (AsComment_update env updateCommentRequest) w1 of
                         (Some e, w2) \<Rightarrow> reply env msg (ErrorValue e) w2
                       | (None, w2) \<Rightarrow> replyNoContent env msg w2))))"

definition delete ::
  "('e, 'q, 'u, 'c, 'r, 'db) collaborators \<Rightarrow> time \<Rightarrow> Msg \<Rightarrow> ('c, 'db) world
     \<Rightarrow> ('c, 'db) world" where
  "delete env now msg w =
     (case WithTimeout now (5 * Second) w of
        (ctx, w1) \<Rightarrow>
          cancel ctx
            (case Unmarshal_id env (Data msg) of
               None \<Rightarrow> reply env msg (ErrorValue (InvalidRequestBody env)) w1
             | Some i \<Rightarrow>
                 (case repo_DeleteByID env ctx i w1 of
                    (Some e, w2) \<Rightarrow> reply env msg (ErrorValue e) w2
                  | (None, w2) \<Rightarrow> replyNoContent env msg w2)))"

text \<open>The operation a subscription is bound to, and the handler \<^verbatim>\<open>Start\<close> binds to it.\<close>

datatype action = ActCreate | ActLoad | ActUpdate | ActDelete

definition handler ::
  "('e, 'q, 'u, 'c, 'r, 'db) collaborators \<Rightarrow> action \<Rightarrow> time \<Rightarrow> Msg \<Rightarrow> ('c, 'db) world
     \<Rightarrow> ('c, 'db) world" where
  "handler env a =
     (case a of ActCreate \<Rightarrow> create env | ActLoad \<Rightarrow> load env
              | ActUpdate \<Rightarrow> update env | ActDelete \<Rightarrow> delete env)"

text \<open>
  The paths through a handler: the payload does not decode, the request is rejected by
  \<^verbatim>\<open>Validate\<close>, the repository returns an error, the repository call succeeds
  (with the loaded comment, for \<^verbatim>\<open>load\<close>).
\<close>

datatype ('e, 'c) outcome =
    DecodeFailure | ValidationFailure 'e | StorageFailure 'e | Stored | Found 'c

definition decode_fails ::
  "('e, 'q, 'u, 'c, 'r, 'db) collaborators \<Rightarrow> action \<Rightarrow> bytes \<Rightarrow> bool" where
  "decode_fails env a bs =
     (case a of
        ActCreate \<Rightarrow> Unmarshal_create env bs = None
      | ActLoad \<Rightarrow> Unmarshal_id env bs = None
      | ActUpdate \<Rightarrow> Unmarshal_update env bs = None
      | ActDelete \<Rightarrow> Unmarshal_id env bs = None)"

text \<open>The context an invocation at instant \<open>now\<close> creates in world \<open>w\<close>.\<close>

definition invocation_ctx :: "time \<Rightarrow> ('c, 'db) world \<Rightarrow> Context" where
  "invocation_ctx now w = \<lparr>ctx_id = next_ctx w, deadline = now + 5 * Second\<rparr>"

definition outcome ::
  "('e, 'q, 'u, 'c, 'r, 'db) collaborators \<Rightarrow> action \<Rightarrow> time \<Rightarrow> Msg \<Rightarrow> ('c, 'db) world
     \<Rightarrow> ('e, 'c) outcome" where
  "outcome env a now msg w =
     (case a of
        ActCreate \<Rightarrow>
          (case Unmarshal_create env (Data msg) of
             None \<Rightarrow> DecodeFailure
           | Some q \<Rightarrow>
               (case Validate_create env q of
                  Some e \<Rightarrow> ValidationFailure e
                | None \<Rightarrow>
                    (case fst (Insert env (invocation_ctx now w) (AsComment_create env q) (db w)) of
                       Some e \<Rightarrow> StorageFailure e
                     | None \<Rightarrow> Stored)))
      | ActLoad \<Rightarrow>
          (case Unmarshal_id env (Data msg) of
             None \<Rightarrow> DecodeFailure
           | Some i \<Rightarrow>
               (case fst (LoadByID env (invocation_ctx now w) i (db w)) of
                  Inl e \<Rightarrow> StorageFailure e
                | Inr c \<Rightarrow> Found c))
      | ActUpdate \<Rightarrow>
          (case Unmarshal_update env (Data msg) of
             None \<Rightarrow> DecodeFailure
           | Some u \<Rightarrow>
               (case Validate_update env u of
                  Some e \<Rightarrow> ValidationFailure e
                | None \<Rightarrow>
                    (case fst (Update env (invocation_ctx now w) (AsComment_update env u) (db w)) of
                       Some e \<Rightarrow> StorageFailure e
                     | None \<Rightarrow> Stored)))
      | ActDelete \<Rightarrow>
          (case Unmarshal_id env (Data msg) of
             None \<Rightarrow> DecodeFailure
           | Some i \<Rightarrow>
               (case fst (DeleteByID env (invocation_ctx now w) i (db w)) of
                  Some e \<Rightarrow> StorageFailure e
                | None \<Rightarrow> Stored)))"

text \<open>
  The body the specification prescribes on each path: the encoded structured error on a
  failure, the encoded entity after a load, a body of length zero otherwise.
\<close>

definition prescribed_body ::
  "('e, 'q, 'u, 'c, 'r, 'db) collaborators \<Rightarrow> ('e, 'c) outcome \<Rightarrow> bytes" where
  "prescribed_body env out =
     (case out of
        DecodeFailure \<Rightarrow> encoded env (ErrorValue (InvalidRequestBody env))
      | ValidationFailure e \<Rightarrow> encoded env (ErrorValue e)
      | StorageFailure e \<Rightarrow> encoded env (ErrorValue e)
      | Stored \<Rightarrow> []
      | Found c \<Rightarrow> encoded env (ResponseValue (LoadFromComment env c)))"

text \<open>The repository calls a handler run added to the log.\<close>

definition new_calls :: "('c, 'db) world \<Rightarrow> ('c, 'db) world \<Rightarrow> 'c repo_call list" where
  "new_calls w w' = drop (length (repo_log w)) (repo_log w')"

text \<open>Whether a path gets as far as the repository.\<close>

definition reaches_repository :: "('e, 'c) outcome \<Rightarrow> bool" where
  "reaches_repository out =
     (case out of DecodeFailure \<Rightarrow> False | ValidationFailure e \<Rightarrow> False | _ \<Rightarrow> True)"

section \<open>The dispatcher: Start, await and Stop\<close>

text \<open>
  A subscription of the broker client: the identity the client gives it, its subject, its
  queue group and the operation whose handler is bound to it.
\<close>

record subscription =
  sid :: nat
  sub_subject :: string
  sub_queue :: string
  sub_handler :: action

text \<open>
  The goroutines of the service. \<^verbatim>\<open>await\<close> is blocked at \<^verbatim>\<open><-s.stop\<close> holding the
  subscriptions it was given, then runs its loop over the ones left, then has returned.
  A caller of \<^verbatim>\<open>Stop\<close> is blocked at \<^verbatim>\<open>s.stop <- struct{}{}\<close>, then has returned.
\<close>

datatype goroutine =
    AwaitReceive "subscription list"
  | AwaitUnsubscribe "subscription list"
  | AwaitReturned
  | StopSend
  | StopReturned

text \<open>
  The dispatcher's view of the world: the subscriptions the broker client holds, the next
  identity it hands out, and the goroutines. The channel \<^verbatim>\<open>stop\<close> is made by
  \<^verbatim>\<open>make(chan struct{})\<close>: it has no buffer, so it holds no state of its own.
\<close>

record service =
  subscribed :: "subscription list"
  next_sid :: nat
  goroutines :: "goroutine list"

text \<open>
  \<^verbatim>\<open>natsClient.QueueSubscribe(subject, queue, cb)\<close>. Whether the client refuses is its own
  business (a closed connection, a bad subject): the parameter \<open>refuses\<close> decides it from
  the state and the request. On success the client holds one more subscription.
\<close>

definition QueueSubscribe ::
  "(service \<Rightarrow> string \<Rightarrow> string \<Rightarrow> 'x option) \<Rightarrow> string \<Rightarrow> string \<Rightarrow> action \<Rightarrow> service
     \<Rightarrow> ('x + subscription) \<times> service" where
  "QueueSubscribe refuses subj queue cb s =
     (case refuses s subj queue of
        Some e \<Rightarrow> (Inl e, s)
      | None \<Rightarrow>
          (let sub = \<lparr>sid = next_sid s, sub_subject = subj, sub_queue = queue, sub_handler = cb\<rparr>
           in (Inr sub, s\<lparr>subscribed := subscribed s @ [sub], next_sid := Suc (next_sid s)\<rparr>)))"

text \<open>\<^verbatim>\<open>go s.await(ss...)\<close>: a new goroutine, which blocks at once on the channel.\<close>

definition go_await :: "subscription list \<Rightarrow> service \<Rightarrow> service" where
  "go_await ss s = s\<lparr>goroutines := goroutines s @ [AwaitReceive ss]\<rparr>"

definition Start ::
  "(service \<Rightarrow> string \<Rightarrow> string \<Rightarrow> 'x option) \<Rightarrow> service \<Rightarrow> 'x option \<times> service" where
  "Start refuses s =
     (case QueueSubscribe refuses ''kiosk.comments.create'' ''kiosk.comments.create_group''
             ActCreate s of
        (Inl e, s1) \<Rightarrow> (Some e, s1)
      | (Inr createCommentSubscription, s1) \<Rightarrow>
     (case QueueSubscribe refuses ''kiosk.comments.load'' ''kiosk.comments.load_group''
             ActLoad s1 of
        (Inl e, s2) \<Rightarrow> (Some e, s2)
      | (Inr loadCommentSubscription, s2) \<Rightarrow>
     (case QueueSubscribe refuses ''kiosk.comments.update'' ''kiosk.comments.update_group''
             ActUpdate s2 of
        (Inl e, s3) \<Rightarrow> (Some e, s3)
      | (Inr updateCommentSubscription, s3) \<Rightarrow>
     (case QueueSubscribe refuses ''kiosk.comments.delete'' ''kiosk.comments.delete_group''
             ActDelete s3 of
        (Inl e, s4) \<Rightarrow> (Some e, s4)
      | (Inr deleteCommentSubscription, s4) \<Rightarrow>
          (None,
           go_await [createCommentSubscription, loadCommentSubscription,
                     updateCommentSubscription, deleteCommentSubscription] s4)))))"

text \<open>
  \<^verbatim>\<open>Stop\<close> sends on the channel: its caller is blocked at the send until a receiver
  takes the signal.
\<close>

definition Stop :: "service \<Rightarrow> service" where
  "Stop s = s\<lparr>goroutines := goroutines s @ [StopSend]\<rparr>"

text \<open>
  The steps of the goroutines. On a channel without buffer a send and a receive complete
  together: \<open>handoff i j\<close> is enabled when goroutine \<open>i\<close> is blocked at the receive and
  goroutine \<open>j\<close> at the send, and moves both on. \<open>await_step i\<close> is a step of \<^verbatim>\<open>await\<close>
  after the receive: \<^verbatim>\<open>_ = s.Unsubscribe()\<close> on the next subscription, the client losing
  it, or the return when none is left. \<open>None\<close> says the step is not enabled.
\<close>

definition handoff :: "nat \<Rightarrow> nat \<Rightarrow> service \<Rightarrow> service option" where
  "handoff i j s =
     (if i < length (goroutines s) \<and> j < length (goroutines s) then
        (case (goroutines s ! i, goroutines s ! j) of
           (AwaitReceive ss, StopSend) \<Rightarrow>
             Some (s\<lparr>goroutines := (goroutines s)[i := AwaitUnsubscribe ss, j := StopReturned]\<rparr>)
         | _ \<Rightarrow> None)
      else None)"

definition await_step :: "nat \<Rightarrow> service \<Rightarrow> service option" where
  "await_step i s =
     (if i < length (goroutines s) then
        (case goroutines s ! i of
           AwaitUnsubscribe [] \<Rightarrow> Some (s\<lparr>goroutines := (goroutines s)[i := AwaitReturned]\<rparr>)
         | AwaitUnsubscribe (x # ss) \<Rightarrow>
             Some (s\<lparr>subscribed := removeAll x (subscribed s),
                     goroutines := (goroutines s)[i := AwaitUnsubscribe ss]\<rparr>)
         | _ \<Rightarrow> None)
      else None)"

text \<open>
  The scheduler is free: the states one step away are those any enabled handoff and any
  enabled step of \<^verbatim>\<open>await\<close> lead to.
\<close>

definition successors :: "service \<Rightarrow> service list" where
  "successors s =
     (let n = length (goroutines s) in
        List.map_filter (\<lambda>(i, j). handoff i j s) (List.product [0..<n] [0..<n])
        @ List.map_filter (\<lambda>i. await_step i s) [0..<n])"

definition step :: "service \<Rightarrow> service \<Rightarrow> bool" where
  "step s s' = (s' \<in> set (successors s))"

text \<open>The binding of each operation, in the order \<^verbatim>\<open>Start\<close> makes them.\<close>

definition bindings :: "(string \<times> string \<times> action) list" where
  "bindings =
     [(''kiosk.comments.create'', ''kiosk.comments.create_group'', ActCreate),
      (''kiosk.comments.load'', ''kiosk.comments.load_group'', ActLoad),
      (''kiosk.comments.update'', ''kiosk.comments.update_group'', ActUpdate),
      (''kiosk.comments.delete'', ''kiosk.comments.delete_group'', ActDelete)]"

definition binding_of :: "subscription \<Rightarrow> string \<times> string \<times> action" where
  "binding_of sub = (sub_subject sub, sub_queue sub, sub_handler sub)"

text \<open>The goroutines blocked at the send, and those blocked at the receive.\<close>

definition sending :: "service \<Rightarrow> nat" where
  "sending s = length (filter (\<lambda>g. g = StopSend) (goroutines s))"

definition is_receive :: "goroutine \<Rightarrow> bool" where
  "is_receive g = (case g of AwaitReceive ss \<Rightarrow> True | _ \<Rightarrow> False)"

definition receiving :: "service \<Rightarrow> nat" where
  "receiving s = length (filter is_receive (goroutines s))"

text \<open>The subscriptions the client gained between two states.\<close>

definition established :: "service \<Rightarrow> service \<Rightarrow> subscription list" where
  "established s s' = drop (length (subscribed s)) (subscribed s')"

text \<open>
  Two invariants of the steps. A goroutine of \<^verbatim>\<open>await\<close> that has received the signal
  holding \<open>ss\<close> keeps every subscription of \<open>ss\<close> either in the rest of its loop or out
  of the client. A sender stays blocked as long as no goroutine is at the receive.
\<close>

definition unsubscribing :: "subscription list \<Rightarrow> nat \<Rightarrow> service \<Rightarrow> bool" where
  "unsubscribing ss i s =
     (i < length (goroutines s) \<and>
      (case goroutines s ! i of
         AwaitUnsubscribe rest \<Rightarrow> \<forall>x \<in> set ss. x \<in> set rest \<or> x \<notin> set (subscribed s)
       | AwaitReturned \<Rightarrow> \<forall>x \<in> set ss. x \<notin> set (subscribed s)
       | _ \<Rightarrow> False))"

definition stuck_sender :: "nat \<Rightarrow> service \<Rightarrow> bool" where
  "stuck_sender j s =
     (receiving s = 0 \<and> j < length (goroutines s) \<and> goroutines s ! j = StopSend)"

section \<open>A small instance of the collaborators\<close>

text \<open>
  The theorems below hold for every choice of the collaborators. To run the handlers on
  concrete messages, this instance keeps comments (an identifier and a content) in a list,
  decodes payloads that open with a brace, reports errors by their code, and has a broker
  client that accepts a reply exactly when the message names a reply subject.
\<close>

type_synonym demo_comment = "int \<times> string"

definition demo_Unmarshal_create :: "bytes \<Rightarrow> string option" where
  "demo_Unmarshal_create bs =
     (case bs of [] \<Rightarrow> None | c # cs \<Rightarrow> if c = CHR ''{'' then Some cs else None)"

definition demo_Unmarshal_update :: "bytes \<Rightarrow> demo_comment option" where
  "demo_Unmarshal_update bs =
     (case bs of [] \<Rightarrow> None | c # cs \<Rightarrow> if c = CHR ''{'' then Some (1, cs) else None)"

definition demo_Unmarshal_id :: "bytes \<Rightarrow> int option" where
  "demo_Unmarshal_id bs =
     (if bs = ''{}'' then Some 0
      else if bs = ''{1}'' then Some 1
      else if bs = ''{2}'' then Some 2
      else None)"

definition demo_Validate_create :: "string \<Rightarrow> string option" where
  "demo_Validate_create q = (if q = [] then Some ''create_comment.empty_content'' else None)"

definition demo_Validate_update :: "demo_comment \<Rightarrow> string option" where
  "demo_Validate_update u = (if snd u = [] then Some ''update_comment.empty_content'' else None)"

definition demo_Insert ::
  "Context \<Rightarrow> demo_comment \<Rightarrow> demo_comment list \<Rightarrow> string option \<times> demo_comment list" where
  "demo_Insert ctx c rows = (None, rows @ [(int (length rows) + 1, snd c)])"

definition demo_LoadByID ::
  "Context \<Rightarrow> int \<Rightarrow> demo_comment list \<Rightarrow> (string + demo_comment) \<times> demo_comment list" where
  "demo_LoadByID ctx i rows =
     (case map_of rows i of
        None \<Rightarrow> (Inl ''load_comment.not_found'', rows)
      | Some s \<Rightarrow> (Inr (i, s), rows))"

definition demo_Update ::
  "Context \<Rightarrow> demo_comment \<Rightarrow> demo_comment list \<Rightarrow> string option \<times> demo_comment list" where
  "demo_Update ctx c rows =
     (case map_of rows (fst c) of
        None \<Rightarrow> (Some ''update_comment.not_found'', rows)
      | Some s \<Rightarrow> (None, map (\<lambda>r. if fst r = fst c then c else r) rows))"

definition demo_DeleteByID ::
  "Context \<Rightarrow> int \<Rightarrow> demo_comment list \<Rightarrow> string option \<times> demo_comment list" where
  "demo_DeleteByID ctx i rows =
     (case map_of rows i of
        None \<Rightarrow> (Some ''delete_comment.not_found'', rows)
      | Some s \<Rightarrow> (None, filter (\<lambda>r. fst r \<noteq> i) rows))"

definition demo_Marshal :: "(string, demo_comment) reply_value \<Rightarrow> bytes option" where
  "demo_Marshal t = (case t of ErrorValue e \<Rightarrow> Some e | ResponseValue c \<Rightarrow> Some (snd c))"

definition demo_Respond :: "Msg \<Rightarrow> bytes \<Rightarrow> bool" where
  "demo_Respond msg b = (Reply msg \<noteq> [])"

definition demo_env ::
  "(string, string, demo_comment, demo_comment, demo_comment, demo_comment list) collaborators"
  where
  "demo_env =
     \<lparr>Unmarshal_create = demo_Unmarshal_create,
      Unmarshal_update = demo_Unmarshal_update,
      Unmarshal_id = demo_Unmarshal_id,
      Validate_create = demo_Validate_create,
      Validate_update = demo_Validate_update,
      AsComment_create = Pair 0,
      AsComment_update = id,
      LoadFromComment = id,
      InvalidRequestBody = ''invalid_request_body'',
      Insert = demo_Insert,
      LoadByID = demo_LoadByID,
      Update = demo_Update,
      DeleteByID = demo_DeleteByID,
      Marshal = demo_Marshal,
      Respond = demo_Respond\<rparr>"

definition demo_world :: "(demo_comment, demo_comment list) world" where
  "demo_world =
     \<lparr>db = [(1, ''first'')], next_ctx = 0, cancelled = [], repo_log = [], respond_log = [],
      published = []\<rparr>"

text \<open>A request with a reply subject, and the same payload published without one.\<close>

definition request :: "string \<Rightarrow> bytes \<Rightarrow> Msg" where
  "request subj body = \<lparr>Subject = subj, Reply = ''_INBOX.1'', Data = body\<rparr>"

definition notification :: "string \<Rightarrow> bytes \<Rightarrow> Msg" where
  "notification subj body = \<lparr>Subject = subj, Reply = [], Data = body\<rparr>"

definition fresh_service :: service where
  "fresh_service = \<lparr>subscribed = [], next_sid = 0, goroutines = []\<rparr>"

definition never_refuses :: "service \<Rightarrow> string \<Rightarrow> string \<Rightarrow> string option" where
  "never_refuses s subj queue = None"

definition refuses_update :: "service \<Rightarrow> string \<Rightarrow> string \<Rightarrow> string option" where
  "refuses_update s subj queue =
     (if subj = ''kiosk.comments.update'' then Some ''nats: connection closed'' else None)"

text \<open>Collaborators whose encoder and whose broker client always fail.\<close>

definition failing_Marshal :: "(string, demo_comment) reply_value \<Rightarrow> bytes option" where
  "failing_Marshal t = None"

definition failing_Respond :: "Msg \<Rightarrow> bytes \<Rightarrow> bool" where
  "failing_Respond msg b = False"

definition failing_env ::
  "(string, string, demo_comment, demo_comment, demo_comment, demo_comment list) collaborators"
  where
  "failing_env = demo_env\<lparr>Marshal := failing_Marshal, Respond := failing_Respond\<rparr>"

text \<open>
  States of a run of the dispatcher: after a successful \<^verbatim>\<open>Start\<close>, after the signal
  of a \<^verbatim>\<open>Stop\<close> was taken, after \<^verbatim>\<open>await\<close> returned; and the state a \<^verbatim>\<open>Start\<close>
  leaves behind when the third subscription is refused.
\<close>

definition started :: service where
  "started = snd (Start never_refuses fresh_service)"

definition signalled :: service where
  "signalled = started\<lparr>goroutines := [AwaitUnsubscribe (subscribed started), StopReturned]\<rparr>"

definition drained :: service where
  "drained = signalled\<lparr>subscribed := [], goroutines := [AwaitReturned, StopReturned]\<rparr>"

definition half_started :: service where
  "half_started =
     \<lparr>subscribed =
        [\<lparr>sid = 0, sub_subject = ''kiosk.comments.create'',
            sub_queue = ''kiosk.comments.create_group'', sub_handler = ActCreate\<rparr>,
         \<lparr>sid = 1, sub_subject = ''kiosk.comments.load'',
            sub_queue = ''kiosk.comments.load_group'', sub_handler = ActLoad\<rparr>],
      next_sid = 2, goroutines = []\<rparr>"

section \<open>The ticket service\<close>

text \<open>
  The ticket service and its repository are known here by their tests only, which carry
  the schema of the tables and the error codes. Every definition of this section is
  modelled from the specification, and agrees with what the tests expect.
\<close>

text \<open>
  Modelled from the spec: the importance levels and the statuses of a ticket, whose
  declarations are missing. The specification names these and leaves the sets open.
\<close>

datatype importance_level = LOW | NORMAL | HIGH | CRITICAL

datatype ticket_status = NEW | IN_PROGRESS | RESOLVED

text \<open>
  Modelled from the spec: the ticket, whose declaration is missing. The fields of the data
  model and of the table \<^verbatim>\<open>tickets\<close>; the comments attached to a ticket are left out.
\<close>

record Ticket =
  ticket_id :: int
  issuer :: string
  owner :: string
  subject :: string
  content :: string
  metadata :: string
  importance :: importance_level
  status :: ticket_status
  issued_at :: time
  updated_at :: time













text \<open>
  Modelled from the spec: the table behind the repository of tickets, which is missing.
  The rows of the table \<^verbatim>\<open>tickets\<close> and the sequence of its identifiers, which starts
  at 1.
\<close>

record tickets_table =
  rows :: "Ticket list"
  next_id :: int


























section \<open>Properties of the handlers\<close>

lemmas handler_defs = handler_def create_def load_def update_def delete_def
  WithTimeout_def cancel_def reply_def replyNoContent_def Msg_Respond_def
  repo_Insert_def repo_LoadByID_def repo_Update_def repo_DeleteByID_def

lemmas demo_defs = demo_env_def demo_world_def request_def notification_def
  demo_Unmarshal_create_def demo_Unmarshal_update_def demo_Unmarshal_id_def
  demo_Validate_create_def demo_Validate_update_def demo_Insert_def demo_LoadByID_def
  demo_Update_def demo_DeleteByID_def demo_Marshal_def demo_Respond_def encoded_def
  failing_env_def failing_Marshal_def failing_Respond_def

lemma respond_log_handler:
  "respond_log (handler env a now msg w) =
     respond_log w @ [(msg, prescribed_body env (outcome env a now msg w))]"
  by (cases a)
     (auto simp add: handler_defs outcome_def prescribed_body_def invocation_ctx_def
        split: option.splits prod.splits sum.splits)

lemma published_handler:
  "published (handler env a now msg w) =
     published w @
       (if Respond env msg (prescribed_body env (outcome env a now msg w))
        then [(msg, prescribed_body env (outcome env a now msg w))] else [])"
  by (cases a)
     (auto simp add: handler_defs outcome_def prescribed_body_def invocation_ctx_def
        split: option.splits prod.splits sum.splits)

lemma next_ctx_handler: "next_ctx (handler env a now msg w) = Suc (next_ctx w)"
  by (cases a) (auto simp add: handler_defs split: option.splits prod.splits sum.splits)

lemma cancelled_handler: "cancelled (handler env a now msg w) = cancelled w @ [next_ctx w]"
  by (cases a) (auto simp add: handler_defs split: option.splits prod.splits sum.splits)

lemma repo_log_decode_fails:
  "decode_fails env a (Data msg) \<Longrightarrow>
     repo_log (handler env a now msg w) = repo_log w \<and> db (handler env a now msg w) = db w"
  by (cases a) (auto simp add: handler_defs decode_fails_def)

lemma outcome_decode_fails:
  "decode_fails env a (Data msg) \<Longrightarrow> outcome env a now msg w = DecodeFailure"
  by (cases a) (auto simp add: outcome_def decode_fails_def)

lemma new_calls_none:
  "\<not> reaches_repository (outcome env a now msg w) \<Longrightarrow>
     new_calls w (handler env a now msg w) = []"
  by (cases a)
     (auto simp add: handler_defs outcome_def new_calls_def reaches_repository_def
        invocation_ctx_def split: option.splits prod.splits sum.splits)

lemma new_calls_one:
  "reaches_repository (outcome env a now msg w) \<Longrightarrow>
     \<exists>c. new_calls w (handler env a now msg w) = [c] \<and> call_ctx c = invocation_ctx now w"
  by (cases a)
     (auto simp add: handler_defs outcome_def new_calls_def reaches_repository_def
        invocation_ctx_def split: option.splits prod.splits sum.splits)

lemma new_calls_load:
  "Unmarshal_id env (Data msg) = Some i \<Longrightarrow>
     new_calls w (load env now msg w) = [LoadByIDCall (invocation_ctx now w) i]"
  by (auto simp add: handler_defs new_calls_def invocation_ctx_def
        split: option.splits prod.splits sum.splits)

lemma new_calls_delete:
  "Unmarshal_id env (Data msg) = Some i \<Longrightarrow>
     new_calls w (delete env now msg w) = [DeleteByIDCall (invocation_ctx now w) i]"
  by (auto simp add: handler_defs new_calls_def invocation_ctx_def
        split: option.splits prod.splits sum.splits)

lemma handler_Respond_irrelevant:
  "(handler (env\<lparr>Respond := r\<rparr>) a now msg w)\<lparr>published := ps\<rparr> =
   (handler env a now msg w)\<lparr>published := ps\<rparr>"
  by (cases a)
     (auto simp add: handler_defs encoded_def split: option.splits prod.splits sum.splits)

subsection \<open>Replies\<close>

text \<open>
  Claim C1, as the code has it. On every path of each of the four handlers exactly one
  payload is handed to \<^verbatim>\<open>msg.Respond\<close> for the inbound message: a body of length zero
  after a successful create, update or delete, the encoded entity after a successful load,
  the encoded structured error after a decoding, validation or storage failure. The reply
  is published exactly when the broker client accepts it: the handler drops the error of
  \<^verbatim>\<open>msg.Respond\<close>, so a refused reply leaves the message unanswered.
\<close>

theorem one_respond_call_on_every_path:
  "respond_log (handler env a now msg w) =
     respond_log w @ [(msg, prescribed_body env (outcome env a now msg w))]
   \<and> published (handler env a now msg w) =
       published w @
         (if Respond env msg (prescribed_body env (outcome env a now msg w))
          then [(msg, prescribed_body env (outcome env a now msg w))] else [])"
  by (simp add: respond_log_handler published_handler)

theorem one_respond_call_witness:
  "respond_log (handler demo_env ActLoad 0 (request ''kiosk.comments.load'' ''{1}'') demo_world)
     = [(request ''kiosk.comments.load'' ''{1}'', ''first'')]
   \<and> published (handler demo_env ActLoad 0 (request ''kiosk.comments.load'' ''{1}'') demo_world)
     = [(request ''kiosk.comments.load'' ''{1}'', ''first'')]"
  using one_respond_call_on_every_path
          [of demo_env ActLoad 0 "request ''kiosk.comments.load'' ''{1}''" demo_world]
  by (simp add: demo_defs outcome_def prescribed_body_def invocation_ctx_def)

text \<open>
  Claim C1 as stated, that exactly one reply is published on every path, fails where the
  broker client refuses the reply: a comment is created from a message that names no
  reply subject, the handler hands the empty body to \<^verbatim>\<open>msg.Respond\<close>, and nothing is
  published.
\<close>

theorem reply_not_published_counterexample:
  "outcome demo_env ActCreate 0 (notification ''kiosk.comments.create'' ''{hello'') demo_world = Stored
   \<and> respond_log (handler demo_env ActCreate 0 (notification ''kiosk.comments.create'' ''{hello'') demo_world)
       = [(notification ''kiosk.comments.create'' ''{hello'', [])]
   \<and> published (handler demo_env ActCreate 0 (notification ''kiosk.comments.create'' ''{hello'') demo_world) = []"
  by (simp add: handler_defs demo_defs outcome_def invocation_ctx_def)

text \<open>
  Claim C2. When the payload does not decode into the request type of the action, the
  handler replies with the encoded invalid-request-body error, the one payload it hands to
  \<^verbatim>\<open>msg.Respond\<close>, and returns: the repository receives no call and the storage is as
  it was.
\<close>

theorem decode_failure_replies_invalid_body_without_repository:
  assumes "decode_fails env a (Data msg)"
  shows "respond_log (handler env a now msg w) =
           respond_log w @ [(msg, encoded env (ErrorValue (InvalidRequestBody env)))]
         \<and> published (handler env a now msg w) =
             published w @
               (if Respond env msg (encoded env (ErrorValue (InvalidRequestBody env)))
                then [(msg, encoded env (ErrorValue (InvalidRequestBody env)))] else [])
         \<and> new_calls w (handler env a now msg w) = []
         \<and> repo_log (handler env a now msg w) = repo_log w
         \<and> db (handler env a now msg w) = db w"
proof -
  have out: "outcome env a now msg w = DecodeFailure"
    using assms by (rule outcome_decode_fails)
  have "respond_log (handler env a now msg w) =
          respond_log w @ [(msg, encoded env (ErrorValue (InvalidRequestBody env)))]"
    by (simp add: respond_log_handler out prescribed_body_def)
  moreover have "published (handler env a now msg w) =
      published w @
        (if Respond env msg (encoded env (ErrorValue (InvalidRequestBody env)))
         then [(msg, encoded env (ErrorValue (InvalidRequestBody env)))] else [])"
    by (simp add: published_handler out prescribed_body_def)
  moreover have "new_calls w (handler env a now msg w) = []"
    by (rule new_calls_none) (simp add: out reaches_repository_def)
  ultimately show ?thesis
    using repo_log_decode_fails [OF assms] by simp
qed

theorem decode_failure_witness:
  "decode_fails demo_env ActUpdate (Data (request ''kiosk.comments.update'' ''not json''))
   \<and> respond_log (handler demo_env ActUpdate 0 (request ''kiosk.comments.update'' ''not json'') demo_world)
       = [(request ''kiosk.comments.update'' ''not json'', ''invalid_request_body'')]
   \<and> published (handler demo_env ActUpdate 0 (request ''kiosk.comments.update'' ''not json'') demo_world)
       = [(request ''kiosk.comments.update'' ''not json'', ''invalid_request_body'')]
   \<and> repo_log (handler demo_env ActUpdate 0 (request ''kiosk.comments.update'' ''not json'') demo_world) = []
   \<and> db (handler demo_env ActUpdate 0 (request ''kiosk.comments.update'' ''not json'') demo_world) = [(1, ''first'')]"
proof -
  have h: "decode_fails demo_env ActUpdate (Data (request ''kiosk.comments.update'' ''not json''))"
    by (simp add: decode_fails_def demo_defs)
  show ?thesis
    using h decode_failure_replies_invalid_body_without_repository
            [OF h, of 0 demo_world]
    by (simp add: demo_defs)
qed

subsection \<open>Deadlines\<close>

lemma new_calls_ctx:
  "c \<in> set (new_calls w (handler env a now msg w)) \<Longrightarrow> call_ctx c = invocation_ctx now w"
proof (cases "reaches_repository (outcome env a now msg w)")
  case True
  assume "c \<in> set (new_calls w (handler env a now msg w))"
  with new_calls_one [OF True] show ?thesis by auto
next
  case False
  assume "c \<in> set (new_calls w (handler env a now msg w))"
  with new_calls_none [OF False] show ?thesis by simp
qed

text \<open>
  Claim C3. Every invocation of a handler creates one new context, whose deadline is five
  seconds after the instant the handling starts; every call the invocation makes on the
  repository carries that context, and a path that reaches the repository makes one call;
  the context is cancelled when the handler returns. The calls of a later invocation carry
  another context, with a deadline counted from its own start.
\<close>

theorem deadline_is_fresh_for_every_invocation:
  "next_ctx (handler env a now msg w) = Suc (next_ctx w)
   \<and> (\<forall>c \<in> set (new_calls w (handler env a now msg w)).
         call_ctx c = \<lparr>ctx_id = next_ctx w, deadline = now + 5 * Second\<rparr>)
   \<and> (reaches_repository (outcome env a now msg w) \<longrightarrow>
         length (new_calls w (handler env a now msg w)) = 1)
   \<and> cancelled (handler env a now msg w) = cancelled w @ [next_ctx w]
   \<and> (\<forall>c \<in> set (new_calls w (handler env a now msg w)).
       \<forall>c' \<in> set (new_calls (handler env a now msg w)
                       (handler env a' now' msg' (handler env a now msg w))).
         ctx_id (call_ctx c') \<noteq> ctx_id (call_ctx c)
         \<and> deadline (call_ctx c') = now' + 5 * Second)"
proof -
  let ?w' = "handler env a now msg w"
  let ?w'' = "handler env a' now' msg' ?w'"
  have one: "reaches_repository (outcome env a now msg w) \<longrightarrow> length (new_calls w ?w') = 1"
    using new_calls_one [of env a now msg w] by auto
  have first: "\<forall>c \<in> set (new_calls w ?w').
      call_ctx c = \<lparr>ctx_id = next_ctx w, deadline = now + 5 * Second\<rparr>"
    using new_calls_ctx [of _ w env a now msg] by (simp add: invocation_ctx_def)
  have second: "\<forall>c' \<in> set (new_calls ?w' ?w'').
      call_ctx c' = \<lparr>ctx_id = Suc (next_ctx w), deadline = now' + 5 * Second\<rparr>"
    using new_calls_ctx [of _ ?w' env a' now' msg']
    by (simp add: invocation_ctx_def next_ctx_handler)
  from first second have apart: "\<forall>c \<in> set (new_calls w ?w'). \<forall>c' \<in> set (new_calls ?w' ?w'').
      ctx_id (call_ctx c') \<noteq> ctx_id (call_ctx c) \<and> deadline (call_ctx c') = now' + 5 * Second"
    by simp
  show ?thesis
    using first one apart by (simp add: next_ctx_handler cancelled_handler)
qed

theorem deadline_witness:
  "reaches_repository (outcome demo_env ActCreate 100 (request ''kiosk.comments.create'' ''{hello'') demo_world)
   \<and> new_calls demo_world
        (handler demo_env ActCreate 100 (request ''kiosk.comments.create'' ''{hello'') demo_world)
       = [InsertCall \<lparr>ctx_id = 0, deadline = 5000000100\<rparr> (0, ''hello'')]
   \<and> new_calls (handler demo_env ActCreate 100 (request ''kiosk.comments.create'' ''{hello'') demo_world)
        (handler demo_env ActLoad 200 (request ''kiosk.comments.load'' ''{2}'')
          (handler demo_env ActCreate 100 (request ''kiosk.comments.create'' ''{hello'') demo_world))
       = [LoadByIDCall \<lparr>ctx_id = 1, deadline = 5000000200\<rparr> 2]
   \<and> length (new_calls demo_world
        (handler demo_env ActCreate 100 (request ''kiosk.comments.create'' ''{hello'') demo_world)) = 1
   \<and> next_ctx (handler demo_env ActCreate 100 (request ''kiosk.comments.create'' ''{hello'') demo_world) = 1"
proof -
  let ?m = "request ''kiosk.comments.create'' ''{hello''"
  let ?m' = "request ''kiosk.comments.load'' ''{2}''"
  have a: "new_calls demo_world (handler demo_env ActCreate 100 ?m demo_world)
             = [InsertCall \<lparr>ctx_id = 0, deadline = 5000000100\<rparr> (0, ''hello'')]"
    by (simp add: handler_defs demo_defs new_calls_def Second_def)
  have b: "new_calls (handler demo_env ActCreate 100 ?m demo_world)
             (handler demo_env ActLoad 200 ?m' (handler demo_env ActCreate 100 ?m demo_world))
             = [LoadByIDCall \<lparr>ctx_id = 1, deadline = 5000000200\<rparr> 2]"
    by (simp add: handler_defs demo_defs new_calls_def Second_def)
  have r: "reaches_repository (outcome demo_env ActCreate 100 ?m demo_world)"
    by (simp add: outcome_def demo_defs reaches_repository_def invocation_ctx_def)
  show ?thesis
    using deadline_is_fresh_for_every_invocation
            [of demo_env ActCreate 100 ?m demo_world ActLoad 200 ?m'] a b r
    by simp
qed

subsection \<open>Identifiers\<close>

lemma identifier_reaches_repository:
  assumes "Unmarshal_id env (Data msg) = Some i"
  shows "new_calls w (handler env ActLoad now msg w) = [LoadByIDCall (invocation_ctx now w) i]
       \<and> new_calls w (handler env ActDelete now msg w) = [DeleteByIDCall (invocation_ctx now w) i]
       \<and> outcome env ActLoad now msg w =
           (case fst (LoadByID env (invocation_ctx now w) i (db w)) of
              Inl e \<Rightarrow> StorageFailure e | Inr c \<Rightarrow> Found c)
       \<and> outcome env ActDelete now msg w =
           (case fst (DeleteByID env (invocation_ctx now w) i (db w)) of
              Some e \<Rightarrow> StorageFailure e | None \<Rightarrow> Stored)"
  using assms new_calls_load [OF assms] new_calls_delete [OF assms]
  by (simp add: handler_def outcome_def)

text \<open>
  Claim C4. The claim asks that the handlers of load and delete reject a non-positive
  identifier as a validation failure before the repository is called. \<^verbatim>\<open>create\<close> and
  \<^verbatim>\<open>update\<close> call \<^verbatim>\<open>Validate\<close> before the repository; \<^verbatim>\<open>load\<close> and \<^verbatim>\<open>delete\<close>
  miss the step. The payload \<^verbatim>\<open>{}\<close> decodes to the identifier 0: both handlers hand it
  to the repository, and the reply is the error the repository returns, not a validation
  failure.
\<close>

theorem non_positive_identifier_reaches_repository:
  "Unmarshal_id demo_env (Data (request ''kiosk.comments.load'' ''{}'')) = Some 0
   \<and> repo_log (handler demo_env ActLoad 0 (request ''kiosk.comments.load'' ''{}'') demo_world)
       = [LoadByIDCall \<lparr>ctx_id = 0, deadline = 5000000000\<rparr> 0]
   \<and> outcome demo_env ActLoad 0 (request ''kiosk.comments.load'' ''{}'') demo_world
       = StorageFailure ''load_comment.not_found''
   \<and> repo_log (handler demo_env ActDelete 0 (request ''kiosk.comments.delete'' ''{}'') demo_world)
       = [DeleteByIDCall \<lparr>ctx_id = 0, deadline = 5000000000\<rparr> 0]
   \<and> outcome demo_env ActDelete 0 (request ''kiosk.comments.delete'' ''{}'') demo_world
       = StorageFailure ''delete_comment.not_found''"
  by (simp add: handler_defs demo_defs outcome_def invocation_ctx_def Second_def)

subsection \<open>Errors of the reply itself\<close>

text \<open>
  Claim C10. The errors of \<^verbatim>\<open>json.Marshal\<close> and of \<^verbatim>\<open>msg.Respond\<close> are dropped.
  Whatever the encoder and the broker client do, a handler hands exactly one payload to
  \<^verbatim>\<open>msg.Respond\<close> and returns (its deferred cancel has run); when the encoding fails
  the body sent is empty; when the publication fails nothing else changes; and apart from
  the list of published replies the effect of a handler does not depend on the verdict of
  the broker client.
\<close>

theorem reply_errors_are_discarded:
  "length (respond_log (handler env a now msg w)) = Suc (length (respond_log w))
   \<and> cancelled (handler env a now msg w) = cancelled w @ [next_ctx w]
   \<and> (Marshal env t = None \<longrightarrow> reply env msg t w = Msg_Respond env msg [] w)
   \<and> (\<not> Respond env msg b \<longrightarrow>
        Msg_Respond env msg b w = w\<lparr>respond_log := respond_log w @ [(msg, b)]\<rparr>)
   \<and> (handler (env\<lparr>Respond := r\<rparr>) a now msg w)\<lparr>published := ps\<rparr> =
       (handler env a now msg w)\<lparr>published := ps\<rparr>"
  by (simp add: respond_log_handler cancelled_handler handler_Respond_irrelevant
        reply_def encoded_def Msg_Respond_def)

theorem reply_errors_witness:
  "Marshal failing_env (ErrorValue ''invalid_request_body'') = None
   \<and> \<not> Respond failing_env (request ''kiosk.comments.load'' ''not json'') []
   \<and> respond_log (handler failing_env ActLoad 0 (request ''kiosk.comments.load'' ''not json'') demo_world)
       = [(request ''kiosk.comments.load'' ''not json'', [])]
   \<and> published (handler failing_env ActLoad 0 (request ''kiosk.comments.load'' ''not json'') demo_world) = []
   \<and> cancelled (handler failing_env ActLoad 0 (request ''kiosk.comments.load'' ''not json'') demo_world) = [0]
   \<and> length (respond_log (handler failing_env ActLoad 0 (request ''kiosk.comments.load'' ''not json'') demo_world)) = 1"
proof -
  let ?m = "request ''kiosk.comments.load'' ''not json''"
  have a: "respond_log (handler failing_env ActLoad 0 ?m demo_world) = [(?m, [])]"
    by (simp add: handler_defs demo_defs)
  have b: "published (handler failing_env ActLoad 0 ?m demo_world) = []"
    by (simp add: handler_defs demo_defs)
  have c: "Marshal failing_env (ErrorValue ''invalid_request_body'') = None"
    by (simp add: demo_defs)
  have d: "\<not> Respond failing_env ?m []"
    by (simp add: demo_defs)
  show ?thesis
    using reply_errors_are_discarded
            [of failing_env ActLoad 0 ?m demo_world "ErrorValue ''invalid_request_body''" "[]"]
          a b c d
    by (simp add: demo_world_def)
qed

section \<open>Properties of the dispatcher\<close>

lemmas service_defs = Start_def QueueSubscribe_def go_await_def fresh_service_def Let_def
  never_refuses_def refuses_update_def started_def signalled_def drained_def half_started_def

lemma Start_launches_await:
  assumes "Start refuses s = (None, s')"
  shows "goroutines s' = goroutines s @ [AwaitReceive (established s s')]
    \<and> length (established s s') = 4
    \<and> subscribed s' = subscribed s @ established s s'"
  using assms
  by (auto simp add: Start_def QueueSubscribe_def go_await_def established_def Let_def
        split: option.splits)

text \<open>
  Claim C6. \<^verbatim>\<open>Start\<close> subscribes the four operations in order, each on its subject
  with its queue group, a name fixed in the code and so shared by all instances. When none
  is refused it returns \<^verbatim>\<open>nil\<close> and launches \<^verbatim>\<open>await\<close> on the four subscriptions.
  When one is refused it returns the error of that first refusal at once: the later
  operations are not subscribed, no goroutine is launched, and the subscriptions
  established before stay with the broker client.
\<close>

theorem Start_fails_fast:
  assumes "Start refuses s = (r, s')"
  shows "subscribed s' = subscribed s @ established s s'
    \<and> map binding_of (established s s') = take (length (established s s')) bindings
    \<and> (case r of
          None \<Rightarrow> length (established s s') = 4
                  \<and> goroutines s' = goroutines s @ [AwaitReceive (established s s')]
        | Some e \<Rightarrow> length (established s s') < 4
                  \<and> goroutines s' = goroutines s
                  \<and> refuses s' (fst (bindings ! length (established s s')))
                       (fst (snd (bindings ! length (established s s')))) = Some e)"
  using assms
  by (auto simp add: Start_def QueueSubscribe_def go_await_def established_def bindings_def
        binding_of_def Let_def split: option.splits dest: sym)

theorem Start_fails_fast_witness:
  "Start refuses_update fresh_service = (Some ''nats: connection closed'', half_started)
   \<and> subscribed half_started = subscribed fresh_service @ established fresh_service half_started
   \<and> length (established fresh_service half_started) = 2
   \<and> goroutines half_started = []
   \<and> refuses_update half_started ''kiosk.comments.update'' ''kiosk.comments.update_group''
        = Some ''nats: connection closed''"
proof -
  have h: "Start refuses_update fresh_service = (Some ''nats: connection closed'', half_started)"
    by (simp add: service_defs)
  have l: "length (established fresh_service half_started) = 2"
    by (simp add: established_def service_defs)
  show ?thesis
    using h l Start_fails_fast [OF h]
    by (simp add: bindings_def) (simp add: service_defs)
qed

lemma handoff_SomeD:
  assumes "handoff i j s = Some s'"
  shows "\<exists>ss. i < length (goroutines s) \<and> j < length (goroutines s) \<and> i \<noteq> j
           \<and> goroutines s ! i = AwaitReceive ss \<and> goroutines s ! j = StopSend
           \<and> s' = s\<lparr>goroutines := (goroutines s)[i := AwaitUnsubscribe ss, j := StopReturned]\<rparr>"
  using assms
  by (auto simp add: handoff_def split: if_splits goroutine.splits)

lemma await_step_SomeD:
  assumes "await_step i s = Some s'"
  shows "i < length (goroutines s) \<and>
         ((goroutines s ! i = AwaitUnsubscribe []
             \<and> s' = s\<lparr>goroutines := (goroutines s)[i := AwaitReturned]\<rparr>)
          \<or> (\<exists>x ss. goroutines s ! i = AwaitUnsubscribe (x # ss)
             \<and> s' = s\<lparr>subscribed := removeAll x (subscribed s),
                       goroutines := (goroutines s)[i := AwaitUnsubscribe ss]\<rparr>))"
  using assms
  by (auto simp add: await_step_def split: if_splits goroutine.splits list.splits)

lemma step_handoff:
  assumes "handoff i j s = Some s'"
  shows "step s s'"
proof -
  from handoff_SomeD [OF assms]
  have "(i, j) \<in> set (List.product [0..<length (goroutines s)] [0..<length (goroutines s)])"
    by auto
  with assms show ?thesis
    by (force simp add: step_def successors_def Let_def map_filter_def)
qed

lemma step_await:
  assumes "await_step i s = Some s'"
  shows "step s s'"
proof -
  from await_step_SomeD [OF assms] have "i \<in> set [0..<length (goroutines s)]" by simp
  with assms show ?thesis
    by (force simp add: step_def successors_def Let_def map_filter_def)
qed

lemma step_cases [consumes 1, case_names step_handoff step_await]:
  assumes "step s s'"
  obtains i j where "handoff i j s = Some s'" | i where "await_step i s = Some s'"
  using assms
  by (auto simp add: step_def successors_def Let_def map_filter_def)

lemma count_update:
  assumes "i < length xs"
  shows "length (filter P (xs[i := y])) + (if P (xs ! i) then 1 else 0)
           = length (filter P xs) + (if P y then 1 else 0)"
  using assms
proof (induction xs arbitrary: i)
  case Nil
  then show ?case by simp
next
  case (Cons x xs)
  then show ?case by (cases i) auto
qed

lemma handoff_counts:
  assumes "handoff i j s = Some s'"
  shows "Suc (sending s') = sending s \<and> Suc (receiving s') = receiving s"
proof -
  from handoff_SomeD [OF assms] obtain ss where
    i: "i < length (goroutines s)" and j: "j < length (goroutines s)" and ij: "i \<noteq> j"
    and gi: "goroutines s ! i = AwaitReceive ss" and gj: "goroutines s ! j = StopSend"
    and s': "s' = s\<lparr>goroutines := (goroutines s)[i := AwaitUnsubscribe ss, j := StopReturned]\<rparr>"
    by blast
  let ?g1 = "(goroutines s)[i := AwaitUnsubscribe ss]"
  have j1: "j < length ?g1" using j by simp
  have gj1: "?g1 ! j = StopSend" using gj ij by simp
  have a1: "length (filter (\<lambda>g. g = StopSend) ?g1) = length (filter (\<lambda>g. g = StopSend) (goroutines s))"
    using count_update [OF i, of "\<lambda>g. g = StopSend" "AwaitUnsubscribe ss"] gi by simp
  have a2: "Suc (length (filter (\<lambda>g. g = StopSend) (?g1[j := StopReturned])))
              = length (filter (\<lambda>g. g = StopSend) ?g1)"
    using count_update [OF j1, of "\<lambda>g. g = StopSend" StopReturned] gj1 by simp
  have b1: "Suc (length (filter is_receive ?g1)) = length (filter is_receive (goroutines s))"
    using count_update [OF i, of is_receive "AwaitUnsubscribe ss"] gi by (simp add: is_receive_def)
  have b2: "length (filter is_receive (?g1[j := StopReturned])) = length (filter is_receive ?g1)"
    using count_update [OF j1, of is_receive StopReturned] gj1 by (simp add: is_receive_def)
  show ?thesis
    using a1 a2 b1 b2 by (simp add: s' sending_def receiving_def)
qed

lemma await_step_counts:
  assumes "await_step i s = Some s'"
  shows "sending s' = sending s \<and> receiving s' = receiving s"
proof -
  from await_step_SomeD [OF assms] have i: "i < length (goroutines s)" by simp
  from await_step_SomeD [OF assms] show ?thesis
  proof (elim conjE disjE exE)
    assume g: "goroutines s ! i = AwaitUnsubscribe []"
      and s': "s' = s\<lparr>goroutines := (goroutines s)[i := AwaitReturned]\<rparr>"
    show ?thesis
      using count_update [OF i, of "\<lambda>g. g = StopSend" AwaitReturned]
            count_update [OF i, of is_receive AwaitReturned] g
      by (simp add: s' sending_def receiving_def is_receive_def)
  next
    fix x ss
    assume g: "goroutines s ! i = AwaitUnsubscribe (x # ss)"
      and s': "s' = s\<lparr>subscribed := removeAll x (subscribed s),
                       goroutines := (goroutines s)[i := AwaitUnsubscribe ss]\<rparr>"
    show ?thesis
      using count_update [OF i, of "\<lambda>g. g = StopSend" "AwaitUnsubscribe ss"]
            count_update [OF i, of is_receive "AwaitUnsubscribe ss"] g
      by (simp add: s' sending_def receiving_def is_receive_def)
  qed
qed

lemma step_length: "step s s' \<Longrightarrow> length (goroutines s') = length (goroutines s)"
  by (auto elim!: step_cases dest!: handoff_SomeD await_step_SomeD)

lemma step_subscribed: "step s s' \<Longrightarrow> set (subscribed s') \<subseteq> set (subscribed s)"
  by (auto elim!: step_cases dest!: handoff_SomeD await_step_SomeD)

lemma receive_blocks:
  assumes "step s s'" and "i < length (goroutines s)" and "goroutines s ! i = AwaitReceive ss"
  shows "goroutines s' ! i = AwaitReceive ss
         \<or> (goroutines s' ! i = AwaitUnsubscribe ss \<and> Suc (sending s') = sending s)"
  using assms(1)
proof (cases rule: step_cases)
  case (step_handoff k j)
  from handoff_SomeD [OF step_handoff] obtain ts where
    k: "k < length (goroutines s)" and j: "j < length (goroutines s)" and kj: "k \<noteq> j"
    and gk: "goroutines s ! k = AwaitReceive ts" and gj: "goroutines s ! j = StopSend"
    and s': "s' = s\<lparr>goroutines := (goroutines s)[k := AwaitUnsubscribe ts, j := StopReturned]\<rparr>"
    by blast
  have ij: "i \<noteq> j" using gj assms(3) by auto
  show ?thesis
  proof (cases "i = k")
    case True
    with gk assms(3) have "ts = ss" by simp
    with True ij assms(2) s' handoff_counts [OF step_handoff] show ?thesis by simp
  next
    case False
    with ij assms(3) s' show ?thesis by simp
  qed
next
  case (step_await k)
  from await_step_SomeD [OF step_await] assms(3) have "i \<noteq> k" by auto
  with await_step_SomeD [OF step_await] assms(3) show ?thesis by auto
qed

lemma unsubscribe_runs_to_return:
  assumes "i < length (goroutines s)" and "goroutines s ! i = AwaitUnsubscribe ss"
  shows "step\<^sup>*\<^sup>* s
           (s\<lparr>subscribed := filter (\<lambda>x. x \<notin> set ss) (subscribed s),
              goroutines := (goroutines s)[i := AwaitReturned]\<rparr>)"
  using assms
proof (induction ss arbitrary: s)
  case Nil
  let ?t = "s\<lparr>goroutines := (goroutines s)[i := AwaitReturned]\<rparr>"
  have "await_step i s = Some ?t" using Nil by (simp add: await_step_def)
  then have "step s ?t" by (rule step_await)
  then have "step\<^sup>*\<^sup>* s ?t" by (rule r_into_rtranclp)
  then show ?case by simp
next
  case (Cons x ss)
  let ?u = "s\<lparr>subscribed := removeAll x (subscribed s),
               goroutines := (goroutines s)[i := AwaitUnsubscribe ss]\<rparr>"
  have "await_step i s = Some ?u" using Cons.prems by (simp add: await_step_def)
  then have su: "step s ?u" by (rule step_await)
  have "i < length (goroutines ?u)" and "goroutines ?u ! i = AwaitUnsubscribe ss"
    using Cons.prems by simp_all
  from Cons.IH [OF this]
  have "step\<^sup>*\<^sup>* ?u
          (?u\<lparr>subscribed := filter (\<lambda>y. y \<notin> set ss) (subscribed ?u),
              goroutines := (goroutines ?u)[i := AwaitReturned]\<rparr>)" .
  moreover have "?u\<lparr>subscribed := filter (\<lambda>y. y \<notin> set ss) (subscribed ?u),
                   goroutines := (goroutines ?u)[i := AwaitReturned]\<rparr>
      = s\<lparr>subscribed := filter (\<lambda>y. y \<notin> set (x # ss)) (subscribed s),
           goroutines := (goroutines s)[i := AwaitReturned]\<rparr>"
    by (simp add: removeAll_filter_not_eq conj_commute eq_commute)
  ultimately show ?case
    using su by (simp add: converse_rtranclp_into_rtranclp)
qed

lemma unsubscribing_step:
  assumes "step s s'" and "unsubscribing ss i s"
  shows "unsubscribing ss i s'"
  using assms(1)
proof (cases rule: step_cases)
  case (step_handoff k j)
  from handoff_SomeD [OF step_handoff] obtain ts where
    gk: "goroutines s ! k = AwaitReceive ts" and gj: "goroutines s ! j = StopSend"
    and s': "s' = s\<lparr>goroutines := (goroutines s)[k := AwaitUnsubscribe ts, j := StopReturned]\<rparr>"
    by blast
  from assms(2) gk gj have "i \<noteq> k" "i \<noteq> j"
    by (auto simp add: unsubscribing_def)
  with assms(2) s' show ?thesis
    by (auto simp add: unsubscribing_def split: goroutine.splits)
next
  case (step_await k)
  show ?thesis
  proof (cases "i = k")
    case True
    with await_step_SomeD [OF step_await] assms(2) show ?thesis
      by (auto simp add: unsubscribing_def)
  next
    case False
    with await_step_SomeD [OF step_await] assms(2) show ?thesis
      by (auto simp add: unsubscribing_def split: goroutine.splits)
  qed
qed

lemma unsubscribing_steps:
  assumes "step\<^sup>*\<^sup>* s t" and "unsubscribing ss i s"
  shows "unsubscribing ss i t"
  using assms by (induction rule: rtranclp_induct) (auto intro: unsubscribing_step)

lemma return_after_unsubscribing_all:
  assumes "step\<^sup>*\<^sup>* s t" and "i < length (goroutines s)"
    and "goroutines s ! i = AwaitUnsubscribe ss" and "goroutines t ! i = AwaitReturned"
  shows "\<forall>x \<in> set ss. x \<notin> set (subscribed t)"
proof -
  have "unsubscribing ss i s" using assms(2,3) by (simp add: unsubscribing_def)
  from unsubscribing_steps [OF assms(1) this] assms(4) show ?thesis
    by (simp add: unsubscribing_def)
qed

lemma stuck_sender_step:
  assumes "step s s'" and "stuck_sender j s"
  shows "stuck_sender j s'"
  using assms(1)
proof (cases rule: step_cases)
  case (step_handoff i k)
  from handoff_counts [OF step_handoff] assms(2) show ?thesis
    by (simp add: stuck_sender_def)
next
  case (step_await i)
  from await_step_SomeD [OF step_await] assms(2) have "i \<noteq> j"
    by (auto simp add: stuck_sender_def)
  with await_step_SomeD [OF step_await] await_step_counts [OF step_await] assms(2)
  show ?thesis by (auto simp add: stuck_sender_def)
qed

lemma stuck_sender_steps:
  assumes "step\<^sup>*\<^sup>* s t" and "stuck_sender j s"
  shows "stuck_sender j t"
  using assms by (induction rule: rtranclp_induct) (auto intro: stuck_sender_step)

lemma Stop_blocks:
  assumes "receiving s = 0" and "step\<^sup>*\<^sup>* (Stop s) t"
  shows "goroutines t ! length (goroutines s) = StopSend"
proof -
  have "stuck_sender (length (goroutines s)) (Stop s)"
    using assms(1) by (simp add: stuck_sender_def Stop_def receiving_def is_receive_def)
  from stuck_sender_steps [OF assms(2) this] show ?thesis by (simp add: stuck_sender_def)
qed

lemma Stop_sends_once:
  "goroutines (Stop s) = goroutines s @ [StopSend] \<and> sending (Stop s) = Suc (sending s)
   \<and> subscribed (Stop s) = subscribed s"
  by (simp add: Stop_def sending_def)

text \<open>
  Claim C7. A successful \<^verbatim>\<open>Start\<close> launches one goroutine of \<^verbatim>\<open>await\<close> on its
  four subscriptions. Such a goroutine, blocked at the receive, stays there until a
  handoff gives it the signal of one sender, which that handoff consumes. From then on it
  can run to its return, unsubscribing on the way, and whenever it has returned none of
  its subscriptions is left with the broker client. \<^verbatim>\<open>Stop\<close> adds exactly one sender.
  The channel has no buffer: when no goroutine is at the receive, the caller of
  \<^verbatim>\<open>Stop\<close> is still blocked at its send after any number of steps.
\<close>

theorem await_and_Stop:
  "(Start refuses v0 = (None, v1) \<longrightarrow>
      goroutines v1 = goroutines v0 @ [AwaitReceive (established v0 v1)]
      \<and> length (established v0 v1) = 4
      \<and> subscribed v1 = subscribed v0 @ established v0 v1)
   \<and> (step s s' \<and> i < length (goroutines s) \<and> goroutines s ! i = AwaitReceive ss \<longrightarrow>
      goroutines s' ! i = AwaitReceive ss
      \<or> (goroutines s' ! i = AwaitUnsubscribe ss \<and> Suc (sending s') = sending s))
   \<and> (k < length (goroutines u) \<and> goroutines u ! k = AwaitUnsubscribe us \<longrightarrow>
        step\<^sup>*\<^sup>* u
          (u\<lparr>subscribed := filter (\<lambda>x. x \<notin> set us) (subscribed u),
             goroutines := (goroutines u)[k := AwaitReturned]\<rparr>))
   \<and> (step\<^sup>*\<^sup>* u t \<and> k < length (goroutines u) \<and> goroutines u ! k = AwaitUnsubscribe us
        \<and> goroutines t ! k = AwaitReturned \<longrightarrow>
        (\<forall>x \<in> set us. x \<notin> set (subscribed t)))
   \<and> goroutines (Stop v) = goroutines v @ [StopSend]
   \<and> sending (Stop v) = Suc (sending v)
   \<and> (receiving v = 0 \<and> step\<^sup>*\<^sup>* (Stop v) t' \<longrightarrow>
        goroutines t' ! length (goroutines v) = StopSend)"
  using Start_launches_await [of refuses v0 v1]
    receive_blocks [of s s' i ss] unsubscribe_runs_to_return [of k u us]
    return_after_unsubscribing_all [of u t k us] Stop_sends_once [of v] Stop_blocks [of v t']
  by blast

theorem await_and_Stop_witness:
  "Start never_refuses fresh_service = (None, started)
   \<and> goroutines started = [AwaitReceive (subscribed started)]
   \<and> step (Stop started) signalled
   \<and> goroutines (Stop started) ! 0 = AwaitReceive (subscribed started)
   \<and> goroutines signalled ! 0 = AwaitUnsubscribe (subscribed started)
   \<and> Suc (sending signalled) = sending (Stop started)
   \<and> step\<^sup>*\<^sup>* signalled drained
   \<and> goroutines drained ! 0 = AwaitReturned
   \<and> length (subscribed started) = 4
   \<and> subscribed drained = []
   \<and> receiving fresh_service = 0
   \<and> step\<^sup>*\<^sup>* (Stop fresh_service) (Stop fresh_service)
   \<and> goroutines (Stop fresh_service) ! 0 = StopSend"
proof -
  have a: "step (Stop started) signalled"
    by (rule step_handoff [of 0 1]) (simp add: handoff_def Stop_def service_defs)
  have b: "0 < length (goroutines (Stop started))
           \<and> goroutines (Stop started) ! 0 = AwaitReceive (subscribed started)"
    by (simp add: Stop_def service_defs)
  have c: "0 < length (goroutines signalled)
           \<and> goroutines signalled ! 0 = AwaitUnsubscribe (subscribed started)"
    by (simp add: service_defs)
  have d: "signalled\<lparr>subscribed := filter (\<lambda>x. x \<notin> set (subscribed started)) (subscribed signalled),
             goroutines := (goroutines signalled)[0 := AwaitReturned]\<rparr> = drained"
    by (simp add: service_defs)
  have e: "receiving fresh_service = 0 \<and> step\<^sup>*\<^sup>* (Stop fresh_service) (Stop fresh_service)"
    by (simp add: receiving_def fresh_service_def)
  have f: "length (subscribed started) = 4 \<and> subscribed drained = []
           \<and> goroutines drained ! 0 = AwaitReturned \<and> length (goroutines fresh_service) = 0"
    by (simp add: service_defs)
  have g: "Start never_refuses fresh_service = (None, started)
           \<and> established fresh_service started = subscribed started"
    by (simp add: service_defs established_def)
  show ?thesis
    using await_and_Stop [of never_refuses fresh_service started "Stop started" signalled 0
            "subscribed started" 0 signalled "subscribed started" drained fresh_service
            "Stop fresh_service"] a b c d e f g
    by (simp add: sending_def fresh_service_def)
qed

section \<open>Properties of the ticket service\<close>






































end
